theory Spec2Isabelle
  imports Main "HOL-Library.Sublist"
begin

section \<open>Data model of \<open>src/cli-tool/src/index.js\<close>\<close>

text \<open>
  JavaScript strings are modelled as \<^typ>\<open>string\<close>, one \<^typ>\<open>char\<close> per code unit
  (code units below 256). A value that may be \<open>undefined\<close> is an \<^typ>\<open>'a option\<close>,
  \<^term>\<open>None\<close> standing for \<open>undefined\<close>; a function that ends in a bare
  \<open>return;\<close> returns \<^term>\<open>None\<close>.
\<close>

text \<open>
  \<open>comments.CommentBlockTag\<close>: the fields the program reads. The content is the
  array of fragments that line 58 joins, each taken as the string \<open>join\<close> makes of it.
\<close>

record CommentBlockTag =
  tagName :: string
  content :: "string list option"

text \<open>The typedefs \<open>DocTest\<close>, \<open>DocTestSymbol\<close> and \<open>DocTestFile\<close> (lines 15-31).\<close>

record DocTest =
  codeArray :: "string list"
  importsArray :: "string list"

record DocTestSymbol =
  name :: string
  tests :: "DocTest list"

record DocTestFile =
  name :: string
  symbols :: "DocTestSymbol list"

section \<open>String primitives used by \<open>gatherDocTest\<close>\<close>

text \<open>The line feed, the separator given to \<open>split\<close>.\<close>

definition LF :: char where
  "LF = CHR 0x0A"

text \<open>
  \<open>String.prototype.split\<close> with a one-character separator: the pieces between the
  occurrences of the separator. The result is never empty: \<open>''.split('\n')\<close> is
  \<open>['']\<close>.
\<close>

fun split :: "char \<Rightarrow> string \<Rightarrow> string list" where
  "split sep [] = [[]]"
| "split sep (c # cs) =
     (if c = sep then [] # split sep cs
      else (case split sep cs of
              [] \<Rightarrow> [[c]]
            | l # ls \<Rightarrow> (c # l) # ls))"

text \<open>
  The characters \<open>String.prototype.trim\<close> strips (white space and line terminators)
  among the code units below 256: TAB, LF, VT, FF, CR, SP and NBSP.
\<close>

definition isWhiteSpace :: "char \<Rightarrow> bool" where
  "isWhiteSpace c \<longleftrightarrow>
     c = CHR 0x09 \<or> c = CHR 0x0A \<or> c = CHR 0x0B \<or> c = CHR 0x0C \<or>
     c = CHR 0x0D \<or> c = CHR 0x20 \<or> c = CHR 0xA0"

text \<open>\<open>String.prototype.trim\<close>: strips both ends.\<close>

definition trim :: "string \<Rightarrow> string" where
  "trim s = rev (dropWhile isWhiteSpace (rev (dropWhile isWhiteSpace s)))"

text \<open>
  \<open>String.prototype.indexOf\<close>: the index of the first occurrence of the pattern,
  or \<open>-1\<close>.
\<close>

fun indexOfFrom :: "int \<Rightarrow> string \<Rightarrow> string \<Rightarrow> int" where
  "indexOfFrom i [] pat = (if pat = [] then i else - 1)"
| "indexOfFrom i (c # cs) pat =
     (if prefix pat (c # cs) then i else indexOfFrom (i + 1) cs pat)"

definition indexOf :: "string \<Rightarrow> string \<Rightarrow> int" where
  "indexOf s pat = indexOfFrom 0 s pat"

section \<open>\<open>isDefined\<close> (lines 39-41)\<close>

definition isDefined :: "'a option \<Rightarrow> bool" where
  "isDefined arg \<longleftrightarrow> arg \<noteq> None"

text \<open>
  \<open>xs.filter(isDefined)\<close>: the elements that pass \<^const>\<open>isDefined\<close>, which the
  type guard then lets the caller use as defined values.
\<close>

definition filterDefined :: "'a option list \<Rightarrow> 'a list" where
  "filterDefined xs = map the (filter isDefined xs)"

section \<open>\<open>gatherDocTest\<close> (lines 48-74)\<close>

text \<open>
  The body of the \<open>forEach\<close> callback (lines 60-68) on the pair of arrays being
  filled. \<open>typeof s === 'string'\<close> holds of every element of a \<open>split\<close> result,
  so the guard is \<open>s !== '\n'\<close>; \<open>push\<close> appends at the end.
\<close>

definition classifyLine :: "string \<Rightarrow> string list \<times> string list \<Rightarrow> string list \<times> string list" where
  "classifyLine s acc =
     (case acc of (code, imports) \<Rightarrow>
        if s \<noteq> [LF] then
          (if indexOf (trim s) ''import'' = 0 then (code, imports @ [s])
           else (code @ [s], imports))
        else (code, imports))"

definition gatherDocTest :: "CommentBlockTag \<Rightarrow> DocTest option" where
  "gatherDocTest tag =
     (case content tag of
        None \<Rightarrow> None
      | Some fragments \<Rightarrow>
          (case fold classifyLine (split LF (concat fragments)) ([], []) of
             (code, imports) \<Rightarrow> Some \<lparr>codeArray = code, importsArray = imports\<rparr>))"

section \<open>The linked program, as the aggregators read it\<close>

text \<open>
  An object used as a dictionary is an association list in the order
  \<open>Object.keys\<close> enumerates it; a value may be \<open>undefined\<close>. Reading a key
  that is missing and reading a key whose value is \<open>undefined\<close> both give
  \<open>undefined\<close>.
\<close>

type_synonym 'a Dict = "(string \<times> 'a option) list"

definition Object_keys :: "'a Dict \<Rightarrow> string list" where
  "Object_keys d = map fst d"

definition getProp :: "'a Dict \<Rightarrow> string \<Rightarrow> 'a option" where
  "getProp d k = (case map_of d k of None \<Rightarrow> None | Some v \<Rightarrow> v)"

record Documentation =
  customTags :: "CommentBlockTag list option"

text \<open>
  \<open>linker.LinkedFormattedSymbol\<close>: a symbol has a name, optional documentation and,
  when it is the symbol of a file, the table of the file's exports.
\<close>

datatype LinkedFormattedSymbol =
  LinkedFormattedSymbol
    (name: string)
    (documentation: "Documentation option")
    (exports: "(string \<times> LinkedFormattedSymbol option) list option")

record LinkedFormattedSourceFile =
  moduleName :: string
  symbol :: "LinkedFormattedSymbol option"

record LinkedFormattedOutputData =
  sourceFiles :: "LinkedFormattedSourceFile Dict"

text \<open>\<open>Array.prototype.indexOf\<close>: the first index holding the value, or \<open>-1\<close>.\<close>

fun arrayIndexOfFrom :: "int \<Rightarrow> 'a list \<Rightarrow> 'a \<Rightarrow> int" where
  "arrayIndexOfFrom i [] x = - 1"
| "arrayIndexOfFrom i (y # ys) x = (if y = x then i else arrayIndexOfFrom (i + 1) ys x)"

definition arrayIndexOf :: "'a list \<Rightarrow> 'a \<Rightarrow> int" where
  "arrayIndexOf xs x = arrayIndexOfFrom 0 xs x"

section \<open>\<open>gatherSymbolDocTests\<close> (lines 81-99)\<close>

definition gatherSymbolDocTests :: "LinkedFormattedSymbol \<Rightarrow> DocTestSymbol option" where
  "gatherSymbolDocTests symb =
     (case documentation symb of
        None \<Rightarrow> None
      | Some doc \<Rightarrow>
          (case customTags doc of
             None \<Rightarrow> None
           | Some cts \<Rightarrow>
               (let examples =
                      filter (\<lambda>ct. arrayIndexOf [''example'', ''doctest''] (tagName ct) \<ge> 0) cts
                in if length examples = 0 then None
                   else Some \<lparr>DocTestSymbol.name = LinkedFormattedSymbol.name symb,
                              tests = filterDefined (map gatherDocTest examples)\<rparr>)))"

section \<open>\<open>gatherFileDocTests\<close> (lines 106-119)\<close>

definition gatherFileDocTests :: "LinkedFormattedSourceFile \<Rightarrow> DocTestFile option" where
  "gatherFileDocTests file =
     (case symbol file of
        None \<Rightarrow> None
      | Some fileSym \<Rightarrow>
          (case exports fileSym of
             None \<Rightarrow> None
           | Some fileExports \<Rightarrow>
               (let exportSyms =
                      filterDefined (map (\<lambda>expName. getProp fileExports expName)
                                         (Object_keys fileExports))
                in Some \<lparr>DocTestFile.name = moduleName file,
                          symbols = filterDefined (map gatherSymbolDocTests exportSyms)\<rparr>)))"

section \<open>\<open>gatherProgramDocTests\<close> (lines 126-132)\<close>

definition gatherProgramDocTests :: "LinkedFormattedOutputData \<Rightarrow> DocTestFile list" where
  "gatherProgramDocTests linked =
     filterDefined
       (map gatherFileDocTests
          (filterDefined
             (map (\<lambda>k. getProp (sourceFiles linked) k) (Object_keys (sourceFiles linked)))))"

section \<open>\<open>doctestProgram\<close> (lines 138-194)\<close>

subsection \<open>Errors and the runner's promises\<close>

text \<open>
  A raised \<open>Error\<close> object: its \<open>name\<close> and its \<open>message\<close>. \<open>new Error(msg)\<close>
  has the name \<open>Error\<close>; the template literal \<open>${err}\<close> converts with
  \<open>Error.prototype.toString\<close>.
\<close>

record JSError =
  errName :: string
  message :: string

definition newError :: "string \<Rightarrow> JSError" where
  "newError msg = \<lparr>errName = ''Error'', message = msg\<rparr>"

definition errorToString :: "JSError \<Rightarrow> string" where
  "errorToString err =
     (if errName err = [] then message err
      else if message err = [] then errName err
      else errName err @ '': '' @ message err)"

text \<open>How the promise of one \<open>runTest\<close> invocation settles.\<close>

datatype outcome = Fulfilled | Rejected JSError

fun isRejected :: "outcome \<Rightarrow> bool" where
  "isRejected Fulfilled = False"
| "isRejected (Rejected err) = True"

text \<open>
  \<open>Promise.all\<close> over \<open>n\<close> promises, given the outcomes of those that settle, in the
  order in which they settle (a promise that never settles is not in the list): it is
  rejected with the first rejection, fulfilled once all \<open>n\<close> are fulfilled, and
  otherwise never settles (\<^term>\<open>None\<close>).
\<close>

definition promiseAll :: "nat \<Rightarrow> outcome list \<Rightarrow> outcome option" where
  "promiseAll n settled =
     (case find isRejected settled of
        Some r \<Rightarrow> Some r
      | None \<Rightarrow> if length settled = n then Some Fulfilled else None)"

subsection \<open>What the run prints and invokes\<close>

text \<open>
  The lines given to \<open>console.log\<close>, one constructor per template literal, with the
  values of its holes: line 162, line 165, line 171, lines 178-183, line 188 and
  line 189 (the last hole is \<open>${err}\<close>).
\<close>

datatype line =
    FileNoDoctests string
  | FileHeader string
  | SymbolNoDoctests string
  | Invoking DocTest
  | SymbolPassed string
  | SymbolFailed string string

datatype event = ConsoleLog line | RunTest DocTest

text \<open>
  The callbacks given to \<open>map\<close> are \<open>async\<close> functions: each runs synchronously
  up to its first \<open>await\<close>, so the three nested \<open>map\<close> calls print the headers and
  invoke \<open>runTest\<close> for every test in array order before any promise settles.
  The callback of lines 176-186:
\<close>

definition launchTest :: "DocTest \<Rightarrow> event list" where
  "launchTest t =
     [ConsoleLog (Invoking \<lparr>codeArray = codeArray t, importsArray = importsArray t\<rparr>),
      RunTest \<lparr>codeArray = codeArray t, importsArray = importsArray t\<rparr>]"

text \<open>The callback of lines 168-190, up to the promise it returns:\<close>

definition launchSymbol :: "DocTestSymbol \<Rightarrow> event list" where
  "launchSymbol s =
     (if length (tests s) = 0 then [ConsoleLog (SymbolNoDoctests (DocTestSymbol.name s))]
      else concat (map launchTest (tests s)))"

text \<open>The callback of lines 158-192, up to its \<open>await\<close>:\<close>

definition launchFile :: "DocTestFile \<Rightarrow> event list" where
  "launchFile file =
     (if length (symbols file) = 0 then [ConsoleLog (FileNoDoctests (DocTestFile.name file))]
      else ConsoleLog (FileHeader (DocTestFile.name file))
             # concat (map launchSymbol (symbols file)))"

text \<open>
  The chain \<open>Promise.all(...).then(...).catch(...)\<close> of lines 174-189 for one symbol,
  given the outcomes of its settled \<open>runTest\<close> promises in order of settlement: the
  line it prints, if any.
\<close>

definition symbolResult :: "DocTestSymbol \<Rightarrow> outcome list \<Rightarrow> line option" where
  "symbolResult s settled =
     (if length (tests s) = 0 then None
      else (case promiseAll (length (tests s)) settled of
              None \<Rightarrow> None
            | Some Fulfilled \<Rightarrow> Some (SymbolPassed (DocTestSymbol.name s))
            | Some (Rejected err) \<Rightarrow>
                Some (SymbolFailed (DocTestSymbol.name s) (errorToString err))))"

text \<open>
  Whether the promise of the symbol's callback settles. It is never rejected: the
  \<open>catch\<close> handler turns a rejection into a printed line.
\<close>

definition symbolSettles :: "DocTestSymbol \<Rightarrow> outcome list \<Rightarrow> bool" where
  "symbolSettles s settled \<longleftrightarrow>
     length (tests s) = 0 \<or> promiseAll (length (tests s)) settled \<noteq> None"

text \<open>
  For a file, the settled outcomes are given per symbol, by the symbol's index in
  \<open>symbols\<close>; for the program per file and symbol.
\<close>

definition fileResults :: "DocTestFile \<Rightarrow> (nat \<Rightarrow> outcome list) \<Rightarrow> line list" where
  "fileResults file settled =
     concat (map (\<lambda>(j, s). case symbolResult s (settled j) of None \<Rightarrow> [] | Some l \<Rightarrow> [l])
                 (enumerate 0 (symbols file)))"

definition fileSettles :: "DocTestFile \<Rightarrow> (nat \<Rightarrow> outcome list) \<Rightarrow> bool" where
  "fileSettles file settled \<longleftrightarrow>
     list_all (\<lambda>(j, s). symbolSettles s (settled j)) (enumerate 0 (symbols file))"

subsection \<open>The report (lines 157-193)\<close>

text \<open>
  A run: the events of its synchronous part in order, the result lines printed later
  as the promises settle (listed by file and symbol; the order in which they are
  printed is the scheduler's), and how the promise of \<open>doctestProgram\<close> settles
  (\<^term>\<open>None\<close>: never; \<^term>\<open>Inl\<close>: rejected with the error raised).
\<close>

record Run =
  events :: "event list"
  results :: "line list"
  completion :: "(JSError + unit) option"

text \<open>
  The statement \<open>await Promise.all(docTests.map(...))\<close>. The promises of the symbols
  are never rejected, so the promise of a file, and the awaited one, is fulfilled once
  every symbol's promise settles.
\<close>

definition reportDocTests :: "DocTestFile list \<Rightarrow> (nat \<Rightarrow> nat \<Rightarrow> outcome list) \<Rightarrow> Run" where
  "reportDocTests docTests settled =
     \<lparr>events = concat (map launchFile docTests),
      results =
        concat (map (\<lambda>(i, file). fileResults file (settled i)) (enumerate 0 docTests)),
      completion =
        (if list_all (\<lambda>(i, file). fileSettles file (settled i)) (enumerate 0 docTests)
         then Some (Inr ()) else None)\<rparr>"

text \<open>The \<open>runTest\<close> invocations among the events, in order.\<close>

fun invocations :: "event list \<Rightarrow> DocTest list" where
  "invocations [] = []"
| "invocations (ConsoleLog l # evs) = invocations evs"
| "invocations (RunTest t # evs) = t # invocations evs"

subsection \<open>The collaborators and the entry operation\<close>

text \<open>What \<open>findPkgJson\<close> returns: the fields the program reads.\<close>

record PkgContents =
  name :: "string option"
  doc_main :: "string option"
  main :: "string option"

record PkgJson =
  path :: string
  contents :: PkgContents

record PkgInfo =
  path :: string
  name :: "string option"
  main :: "string option"

text \<open>The operator \<open>||\<close> on strings that may be \<open>undefined\<close>: the empty string is falsy.\<close>

definition truthy :: "string option \<Rightarrow> bool" where
  "truthy v \<longleftrightarrow> v \<noteq> None \<and> v \<noteq> Some []"

definition orElse :: "string option \<Rightarrow> string option \<Rightarrow> string option" where
  "orElse a b = (if truthy a then a else b)"

text \<open>
  Everything outside the program that a run depends on: the program builder (which
  may raise), the package locator, the chain \<open>createReverseResolver\<close>,
  \<open>walkProgram\<close>, \<open>formatWalkerOutput\<close>, \<open>linker.linkFormatterData\<close> as one
  function of the program and of \<open>pkgInfo\<close>, and, for the symbol \<open>j\<close> of the file
  \<open>i\<close> of the gathered tests, the outcomes of its settled \<open>runTest\<close> promises in
  order of settlement.
\<close>

record 'p World =
  createProgramFromTsConfig :: "string \<Rightarrow> JSError + 'p"
  findPkgJson :: "string \<Rightarrow> PkgJson option"
  linkFormatterData :: "'p \<Rightarrow> PkgInfo \<Rightarrow> LinkedFormattedOutputData"
  runTestSettled :: "nat \<Rightarrow> nat \<Rightarrow> outcome list"

definition doctestProgram :: "'p World \<Rightarrow> string \<Rightarrow> Run" where
  "doctestProgram world pth =
     (case createProgramFromTsConfig world pth of
        Inl err \<Rightarrow> \<lparr>events = [], results = [], completion = Some (Inl err)\<rparr>
      | Inr prog \<Rightarrow>
          (case findPkgJson world pth of
             None \<Rightarrow>
               \<lparr>events = [], results = [],
                completion =
                  Some (Inl (newError (''Could not find package.json via search path ''
                                        @ [CHR 0x22] @ pth @ [CHR 0x22])))\<rparr>
           | Some pkg \<Rightarrow>
               (let pkgInfo =
                      \<lparr>PkgInfo.path = PkgJson.path pkg,
                       name = PkgContents.name (contents pkg),
                       main = orElse (orElse (doc_main (contents pkg))
                                             (PkgContents.main (contents pkg)))
                                     (Some (PkgJson.path pkg))\<rparr>;
                    linked = linkFormatterData world prog pkgInfo;
                    docTests = gatherProgramDocTests linked
                in reportDocTests docTests (runTestSettled world))))"

section \<open>The specification's wording of the line classification\<close>

text \<open>
  The specification classifies a line by trimming its leading white space and testing
  whether the rest begins with \<open>import\<close>.
\<close>

definition spec_isImportLine :: "string \<Rightarrow> bool" where
  "spec_isImportLine s \<longleftrightarrow> prefix ''import'' (dropWhile isWhiteSpace s)"

text \<open>
  The lines the specification calls blank: empty, or a line terminator alone.
\<close>

definition isBlankLine :: "string \<Rightarrow> bool" where
  "isBlankLine s \<longleftrightarrow> s = [] \<or> s = [LF]"

text \<open>A dictionary without its entries whose value is \<open>undefined\<close>.\<close>

definition dropUndefined :: "'a Dict \<Rightarrow> 'a Dict" where
  "dropUndefined d = filter (\<lambda>kv. snd kv \<noteq> None) d"

section \<open>Facts about the string primitives\<close>

lemma split_no_sep: "l \<in> set (split sep s) \<Longrightarrow> sep \<notin> set l"
  by (induction s arbitrary: l) (auto split: if_splits list.splits)

lemma split_line_not_LF: "l \<in> set (split LF s) \<Longrightarrow> l \<noteq> [LF]"
  using split_no_sep [of l LF s] by auto

lemma indexOfFrom_range: "indexOfFrom i s pat = - 1 \<or> i \<le> indexOfFrom i s pat"
  by (induction i s pat rule: indexOfFrom.induct) auto

lemma indexOfFrom_prefix:
  assumes "0 \<le> i"
  shows "indexOfFrom i s pat = i \<longleftrightarrow> prefix pat s"
proof (cases s)
  case Nil
  with assms show ?thesis by auto
next
  case (Cons c cs)
  have "indexOfFrom (i + 1) cs pat = - 1 \<or> i + 1 \<le> indexOfFrom (i + 1) cs pat"
    by (rule indexOfFrom_range)
  with assms Cons show ?thesis by auto
qed

lemma indexOf_prefix: "indexOf s pat = 0 \<longleftrightarrow> prefix pat s"
  by (simp add: indexOf_def indexOfFrom_prefix)

text \<open>
  Stripping the end of a string does not change whether it begins with a pattern that
  has no white space in it.
\<close>

lemma prefix_trimEnd:
  assumes nows: "\<forall>c \<in> set p. \<not> W c"
  shows "prefix p (rev (dropWhile W (rev t))) \<longleftrightarrow> prefix p t"
proof
  assume "prefix p (rev (dropWhile W (rev t)))"
  moreover have "prefix (rev (dropWhile W (rev t))) t"
    using suffix_dropWhile [of W "rev t"] by (simp add: suffix_to_prefix)
  ultimately show "prefix p t" by (rule prefix_order.trans)
next
  assume "prefix p t"
  then obtain r where t: "t = p @ r" by (auto simp: prefix_def)
  show "prefix p (rev (dropWhile W (rev t)))"
  proof (cases "\<forall>x\<in>set (rev r). W x")
    case True
    have "dropWhile W (rev p) = rev p"
      using nows by (cases "rev p") auto
    with True t show ?thesis by (simp add: dropWhile_append)
  next
    case False
    with t show ?thesis by (auto simp: dropWhile_append)
  qed
qed

lemma import_not_ws: "\<forall>c \<in> set ''import''. \<not> isWhiteSpace c"
  by (simp add: isWhiteSpace_def)

text \<open>The test of line 62 is the specification's test.\<close>

lemma code_test_is_spec_test: "indexOf (trim s) ''import'' = 0 \<longleftrightarrow> spec_isImportLine s"
  unfolding indexOf_prefix trim_def spec_isImportLine_def
  by (rule prefix_trimEnd [OF import_not_ws])

section \<open>Facts about \<open>gatherDocTest\<close>\<close>

lemma fold_classifyLine:
  "fold classifyLine ls (c, i) =
     (c @ filter (\<lambda>s. s \<noteq> [LF] \<and> \<not> spec_isImportLine s) ls,
      i @ filter (\<lambda>s. s \<noteq> [LF] \<and> spec_isImportLine s) ls)"
  by (induction ls arbitrary: c i) (simp_all add: classifyLine_def code_test_is_spec_test)

lemma gatherDocTest_Some:
  "content tag = Some fragments \<Longrightarrow>
   gatherDocTest tag =
     Some \<lparr>codeArray =
             filter (\<lambda>s. s \<noteq> [LF] \<and> \<not> spec_isImportLine s) (split LF (concat fragments)),
           importsArray =
             filter (\<lambda>s. s \<noteq> [LF] \<and> spec_isImportLine s) (split LF (concat fragments))\<rparr>"
  by (simp add: gatherDocTest_def fold_classifyLine)

text \<open>No piece of a string split at line feeds is a line feed, so the guard of line 61
  lets every line through.\<close>

lemma filter_guard_split:
  "filter (\<lambda>s. s \<noteq> [LF] \<and> P s) (split LF t) = filter P (split LF t)"
  by (rule filter_cong) (auto dest: split_line_not_LF)

lemma shuffles_partition: "xs \<in> shuffles (filter (\<lambda>x. \<not> P x) xs) (filter P xs)"
  by (induction xs) (auto intro: Cons_in_shuffles_leftI Cons_in_shuffles_rightI)

section \<open>Facts about the aggregators\<close>

lemma isDefined_simps [simp]: "isDefined None = False" "isDefined (Some x) = True"
  by (simp_all add: isDefined_def)

lemma filterDefined_simps [simp]:
  "filterDefined [] = []"
  "filterDefined (None # xs) = filterDefined xs"
  "filterDefined (Some x # xs) = x # filterDefined xs"
  by (simp_all add: filterDefined_def)

lemma filterDefined_all_None: "(\<forall>x \<in> set xs. x = None) \<Longrightarrow> filterDefined xs = []"
  by (induction xs) auto

lemma set_filterDefined: "set (filterDefined xs) = {x. Some x \<in> set xs}"
proof (induction xs)
  case Nil
  show ?case by simp
next
  case (Cons a xs)
  then show ?case by (cases a) auto
qed

lemma arrayIndexOfFrom_mem: "0 \<le> i \<Longrightarrow> 0 \<le> arrayIndexOfFrom i xs x \<longleftrightarrow> x \<in> set xs"
  by (induction i xs x rule: arrayIndexOfFrom.induct) auto

lemma arrayIndexOf_mem: "0 \<le> arrayIndexOf xs x \<longleftrightarrow> x \<in> set xs"
  by (simp add: arrayIndexOf_def arrayIndexOfFrom_mem)

text \<open>In a dictionary the keys are distinct, and reading every key gives the values in
  order.\<close>

lemma values_distinct:
  "distinct (Object_keys d) \<Longrightarrow> map (\<lambda>k. getProp d k) (Object_keys d) = map snd d"
  by (auto simp: Object_keys_def getProp_def)

lemma filterDefined_dropUndefined:
  "filterDefined (map snd (dropUndefined d)) = filterDefined (map snd d)"
  unfolding dropUndefined_def
proof (induction d)
  case Nil
  show ?case by simp
next
  case (Cons kv d)
  then show ?case by (cases "snd kv") auto
qed

lemma distinct_dropUndefined:
  "distinct (Object_keys d) \<Longrightarrow> distinct (Object_keys (dropUndefined d))"
  by (simp add: Object_keys_def dropUndefined_def distinct_map_filter)

lemma getProp_Some_mem: "getProp d k = Some v \<Longrightarrow> (k, Some v) \<in> set d"
  by (auto simp: getProp_def split: option.splits dest: map_of_SomeD)

section \<open>The Tag Extractor\<close>

text \<open>
  Claim C3. After the fragments are joined and split at line feeds, a line that is empty
  or is a line terminator alone is meant to appear in neither array. The guard of
  line 61 compares with \<open>'\n'\<close>, which no piece of a string split at \<open>'\n'\<close> equals, and
  the empty line is not tested for: on the content \<open>a\n\nb\<close> the empty line between
  the two others is pushed to \<open>codeArray\<close>.
\<close>

theorem gatherDocTest_keeps_blank_line:
  "gatherDocTest \<lparr>tagName = ''example'', content = Some [''a\<newline>\<newline>b'']\<rparr>
     = Some \<lparr>codeArray = [''a'', [], ''b''], importsArray = []\<rparr>"
  by code_simp

text \<open>
  Claim C4. Every line that passes the guard of line 61 is pushed, as it is (untrimmed),
  to \<open>importsArray\<close> if and only if the line without its leading white space begins
  with \<open>import\<close>, and to \<open>codeArray\<close> otherwise. The test is a prefix test: the
  line \<open>  importantValue = 1\<close> is an import line.
\<close>

theorem gatherDocTest_classifies_by_import_prefix:
  "gatherDocTest \<lparr>tagName = n, content = Some fragments\<rparr> =
     Some \<lparr>codeArray =
             filter (\<lambda>s. s \<noteq> [LF] \<and> \<not> spec_isImportLine s) (split LF (concat fragments)),
           importsArray =
             filter (\<lambda>s. s \<noteq> [LF] \<and> spec_isImportLine s) (split LF (concat fragments))\<rparr>
   \<and> spec_isImportLine ''  importantValue = 1''
   \<and> gatherDocTest \<lparr>tagName = n, content = Some [''  importantValue = 1'']\<rparr> =
       Some \<lparr>codeArray = [], importsArray = [''  importantValue = 1'']\<rparr>"
proof -
  have ex: "spec_isImportLine ''  importantValue = 1''"
    by (simp add: spec_isImportLine_def isWhiteSpace_def)
  have "split LF ''  importantValue = 1'' = [''  importantValue = 1'']"
    by (simp add: LF_def)
  with ex show ?thesis by (simp add: gatherDocTest_Some LF_def)
qed

text \<open>
  Claim C5. A tag whose content is present yields a test unit; its code lines and its
  import lines have no line in common, the lines of the content are an interleaving
  of the two arrays, and so are the lines that are not blank: the two arrays together
  keep the source order of the lines.
\<close>

theorem gatherDocTest_disjoint_and_ordered:
  assumes "content tag = Some fragments"
  shows "\<exists>t. gatherDocTest tag = Some t
     \<and> set (codeArray t) \<inter> set (importsArray t) = {}
     \<and> split LF (concat fragments) \<in> shuffles (codeArray t) (importsArray t)
     \<and> filter (\<lambda>s. \<not> isBlankLine s) (split LF (concat fragments))
         \<in> shuffles (filter (\<lambda>s. \<not> isBlankLine s) (codeArray t))
                     (filter (\<lambda>s. \<not> isBlankLine s) (importsArray t))"
proof -
  let ?ls = "split LF (concat fragments)"
  let ?t = "\<lparr>codeArray = filter (\<lambda>s. \<not> spec_isImportLine s) ?ls,
             importsArray = filter spec_isImportLine ?ls\<rparr>"
  from assms have g: "gatherDocTest tag = Some ?t"
    by (simp add: gatherDocTest_Some filter_guard_split)
  have 1: "set (codeArray ?t) \<inter> set (importsArray ?t) = {}"
    by auto
  have 2: "?ls \<in> shuffles (codeArray ?t) (importsArray ?t)"
    by (simp add: shuffles_partition)
  have 3: "filter (\<lambda>s. \<not> isBlankLine s) ?ls
         \<in> shuffles (filter (\<lambda>s. \<not> isBlankLine s) (codeArray ?t))
                     (filter (\<lambda>s. \<not> isBlankLine s) (importsArray ?t))"
    using shuffles_partition [of "filter (\<lambda>s. \<not> isBlankLine s) ?ls" spec_isImportLine]
    by (simp add: conj_commute)
  from g 1 2 3 show ?thesis by blast
qed

text \<open>
  The same on a tag with an import line, a blank line and a code line: the test unit
  it yields has the import line and, in source order, the two others.
\<close>

theorem gatherDocTest_disjoint_and_ordered_witness:
  "gatherDocTest
     \<lparr>tagName = ''example'',
      content = Some [''import { add } from x;\<newline>'', ''\<newline>add(1, 2); // 3'']\<rparr>
     = Some \<lparr>codeArray = [[], ''add(1, 2); // 3''],
             importsArray = [''import { add } from x;'']\<rparr>
   \<and> (\<exists>t. gatherDocTest
          \<lparr>tagName = ''example'',
           content = Some [''import { add } from x;\<newline>'', ''\<newline>add(1, 2); // 3'']\<rparr>
          = Some t
        \<and> set (codeArray t) \<inter> set (importsArray t) = {}
        \<and> split LF (concat [''import { add } from x;\<newline>'', ''\<newline>add(1, 2); // 3''])
            \<in> shuffles (codeArray t) (importsArray t)
        \<and> filter (\<lambda>s. \<not> isBlankLine s)
              (split LF (concat [''import { add } from x;\<newline>'', ''\<newline>add(1, 2); // 3'']))
            \<in> shuffles (filter (\<lambda>s. \<not> isBlankLine s) (codeArray t))
                        (filter (\<lambda>s. \<not> isBlankLine s) (importsArray t)))"
proof -
  let ?frags = "[''import { add } from x;\<newline>'', ''\<newline>add(1, 2); // 3'']"
  let ?tag = "\<lparr>tagName = ''example'', content = Some ?frags\<rparr>"
  have c: "content ?tag = Some ?frags"
    by simp
  have g: "gatherDocTest ?tag
             = Some \<lparr>codeArray = [[], ''add(1, 2); // 3''],
                     importsArray = [''import { add } from x;'']\<rparr>"
    by code_simp
  from g gatherDocTest_disjoint_and_ordered [OF c] show ?thesis
    by blast
qed

text \<open>
  Claim C7, as amended. A tag yields no test unit exactly when its content is absent;
  a tag whose content is present, be it an empty list of fragments, yields one. No
  path of \<open>gatherDocTest\<close> raises.
\<close>

theorem gatherDocTest_None_iff: "gatherDocTest tag = None \<longleftrightarrow> content tag = None"
  by (cases "content tag") (simp_all add: gatherDocTest_def split: prod.splits)

text \<open>Both directions at concrete tags.\<close>

theorem gatherDocTest_None_iff_witness:
  "gatherDocTest \<lparr>tagName = ''doctest'', content = None\<rparr> = None
   \<and> gatherDocTest \<lparr>tagName = ''doctest'', content = Some [''f(1)'']\<rparr> \<noteq> None"
  using gatherDocTest_None_iff [of "\<lparr>tagName = ''doctest'', content = None\<rparr>"]
    gatherDocTest_None_iff [of "\<lparr>tagName = ''doctest'', content = Some [''f(1)'']\<rparr>"]
  by simp

text \<open>A tag with an empty list of fragments: \<open>![]\<close> is false, and a test unit comes out.\<close>

theorem gatherDocTest_empty_content_counterexample:
  "gatherDocTest \<lparr>tagName = ''example'', content = Some []\<rparr>
     = Some \<lparr>codeArray = [[]], importsArray = []\<rparr>"
  by code_simp

section \<open>The Symbol Aggregator\<close>

lemma gatherSymbolDocTests_None_iff:
  "gatherSymbolDocTests symb = None \<longleftrightarrow>
     (documentation symb = None
      \<or> (\<exists>doc. documentation symb = Some doc \<and>
            (customTags doc = None
             \<or> (\<exists>cts. customTags doc = Some cts \<and>
                   (\<forall>ct \<in> set cts. tagName ct \<noteq> ''example'' \<and> tagName ct \<noteq> ''doctest'')))))"
  by (auto simp: gatherSymbolDocTests_def Let_def arrayIndexOf_mem filter_empty_conv
      split: option.splits)

lemma gatherSymbolDocTests_Some:
  assumes "documentation symb = Some doc" and "customTags doc = Some cts"
    and "\<exists>ct \<in> set cts. tagName ct = ''example'' \<or> tagName ct = ''doctest''"
  shows "gatherSymbolDocTests symb =
     Some \<lparr>DocTestSymbol.name = LinkedFormattedSymbol.name symb,
           tests = filterDefined (map gatherDocTest
                     (filter (\<lambda>ct. tagName ct = ''example'' \<or> tagName ct = ''doctest'') cts))\<rparr>"
proof -
  have f: "filter (\<lambda>ct. arrayIndexOf [''example'', ''doctest''] (tagName ct) \<ge> 0) cts
         = filter (\<lambda>ct. tagName ct = ''example'' \<or> tagName ct = ''doctest'') cts"
    by (rule filter_cong) (auto simp: arrayIndexOf_mem)
  from assms(3)
  have "filter (\<lambda>ct. tagName ct = ''example'' \<or> tagName ct = ''doctest'') cts \<noteq> []"
    by (auto simp: filter_empty_conv)
  with assms(1,2) show ?thesis
    by (simp add: gatherSymbolDocTests_def Let_def f)
qed

text \<open>
  Claim C2, as amended. The Symbol Aggregator returns nothing exactly when the
  documentation is absent, the custom tags are absent, or no tag is named \<open>example\<close>
  or \<open>doctest\<close>. A symbol with at least one such tag is returned with its name and
  the test units of those tags, in order, without the tags that yield none: the
  sequence may be empty.
\<close>

theorem gatherSymbolDocTests_result:
  "(gatherSymbolDocTests symb = None \<longleftrightarrow>
     (documentation symb = None
      \<or> (\<exists>doc. documentation symb = Some doc \<and>
            (customTags doc = None
             \<or> (\<exists>cts. customTags doc = Some cts \<and>
                   (\<forall>ct \<in> set cts. tagName ct \<noteq> ''example'' \<and> tagName ct \<noteq> ''doctest''))))))
   \<and> (\<forall>doc cts.
         documentation symb = Some doc \<and> customTags doc = Some cts
         \<and> (\<exists>ct \<in> set cts. tagName ct = ''example'' \<or> tagName ct = ''doctest'') \<longrightarrow>
         gatherSymbolDocTests symb =
           Some \<lparr>DocTestSymbol.name = LinkedFormattedSymbol.name symb,
                 tests = filterDefined (map gatherDocTest
                   (filter (\<lambda>ct. tagName ct = ''example'' \<or> tagName ct = ''doctest'') cts))\<rparr>)"
  using gatherSymbolDocTests_None_iff [of symb] gatherSymbolDocTests_Some [of symb]
  by blast

text \<open>
  A symbol with a \<open>param\<close> tag, a \<open>doctest\<close> tag without content and an \<open>example\<close>
  tag: one test unit.
\<close>

theorem gatherSymbolDocTests_result_witness:
  "gatherSymbolDocTests
     (LinkedFormattedSymbol ''add''
        (Some \<lparr>customTags = Some [\<lparr>tagName = ''param'', content = Some [''x'']\<rparr>,
                                  \<lparr>tagName = ''doctest'', content = None\<rparr>,
                                  \<lparr>tagName = ''example'', content = Some [''add(1, 2)'']\<rparr>]\<rparr>)
        None)
   = Some \<lparr>DocTestSymbol.name = ''add'',
           tests = [\<lparr>codeArray = [''add(1, 2)''], importsArray = []\<rparr>]\<rparr>"
proof -
  let ?cts = "[\<lparr>tagName = ''param'', content = Some [''x'']\<rparr>,
               \<lparr>tagName = ''doctest'', content = None\<rparr>,
               \<lparr>tagName = ''example'', content = Some [''add(1, 2)'']\<rparr>]"
  let ?doc = "\<lparr>customTags = Some ?cts\<rparr>"
  let ?symb = "LinkedFormattedSymbol ''add'' (Some ?doc) None"
  have h: "documentation ?symb = Some ?doc \<and> customTags ?doc = Some ?cts
           \<and> (\<exists>ct \<in> set ?cts. tagName ct = ''example'' \<or> tagName ct = ''doctest'')"
    by simp
  have g: "gatherDocTest \<lparr>tagName = ''example'', content = Some [''add(1, 2)'']\<rparr>
             = Some \<lparr>codeArray = [''add(1, 2)''], importsArray = []\<rparr>"
    by code_simp
  have n: "gatherDocTest \<lparr>tagName = ''doctest'', content = None\<rparr> = None"
    by code_simp
  from gatherSymbolDocTests_result [of ?symb] h
  have "gatherSymbolDocTests ?symb =
          Some \<lparr>DocTestSymbol.name = LinkedFormattedSymbol.name ?symb,
                tests = filterDefined (map gatherDocTest
                  (filter (\<lambda>ct. tagName ct = ''example'' \<or> tagName ct = ''doctest'') ?cts))\<rparr>"
    by blast
  then show ?thesis by (simp add: g n)
qed

text \<open>
  A symbol whose only \<open>example\<close> tag has no content is returned, with no test unit.
\<close>

theorem gatherSymbolDocTests_contentless_counterexample:
  "gatherSymbolDocTests
     (LinkedFormattedSymbol ''add''
        (Some \<lparr>customTags = Some [\<lparr>tagName = ''example'', content = None\<rparr>]\<rparr>) None)
   = Some \<lparr>DocTestSymbol.name = ''add'', tests = []\<rparr>"
  by code_simp

section \<open>The File Aggregator and the Program Aggregator\<close>

lemma gatherProgramDocTests_distinct:
  "distinct (Object_keys (sourceFiles linked)) \<Longrightarrow>
   gatherProgramDocTests linked =
     filterDefined (map gatherFileDocTests (filterDefined (map snd (sourceFiles linked))))"
  by (simp add: gatherProgramDocTests_def values_distinct)

text \<open>
  Claim C1, as amended. The File Aggregator produces nothing exactly when the file has
  no symbol or its symbol has no export table. For a file with an export table it
  produces a value named by the file's module name, with the results of the Symbol
  Aggregator on the defined exports; the sequence is empty when the table is.
\<close>

theorem gatherFileDocTests_result:
  "(gatherFileDocTests file = None \<longleftrightarrow>
      symbol file = None \<or> (\<exists>fileSym. symbol file = Some fileSym \<and> exports fileSym = None))
   \<and> (\<forall>fileSym fileExports.
        symbol file = Some fileSym \<and> exports fileSym = Some fileExports \<longrightarrow>
        gatherFileDocTests file =
          Some \<lparr>DocTestFile.name = moduleName file,
                symbols = filterDefined (map gatherSymbolDocTests
                  (filterDefined (map (getProp fileExports) (Object_keys fileExports))))\<rparr>)
   \<and> (\<forall>fileSym. symbol file = Some fileSym \<and> exports fileSym = Some [] \<longrightarrow>
        gatherFileDocTests file = Some \<lparr>DocTestFile.name = moduleName file, symbols = []\<rparr>)"
  by (auto simp: gatherFileDocTests_def Let_def Object_keys_def split: option.splits)

text \<open>A file with an empty export table, and a file whose symbol has none.\<close>

theorem gatherFileDocTests_result_witness:
  "gatherFileDocTests
     \<lparr>moduleName = ''math'', symbol = Some (LinkedFormattedSymbol ''math'' None (Some []))\<rparr>
     = Some \<lparr>DocTestFile.name = ''math'', symbols = []\<rparr>
   \<and> gatherFileDocTests
       \<lparr>moduleName = ''math'', symbol = Some (LinkedFormattedSymbol ''math'' None None)\<rparr>
       = None"
  using gatherFileDocTests_result
    [of "\<lparr>moduleName = ''math'', symbol = Some (LinkedFormattedSymbol ''math'' None (Some []))\<rparr>"]
    gatherFileDocTests_result
    [of "\<lparr>moduleName = ''math'', symbol = Some (LinkedFormattedSymbol ''math'' None None)\<rparr>"]
  by (simp add: Object_keys_def)

text \<open>A file without a symbol, and a file whose symbol has no export table: nothing.\<close>

theorem gatherFileDocTests_nothing_counterexample:
  "gatherFileDocTests \<lparr>moduleName = ''math'', symbol = None\<rparr> = None
   \<and> gatherFileDocTests
        \<lparr>moduleName = ''math'', symbol = Some (LinkedFormattedSymbol ''math'' None None)\<rparr>
       = None"
  by code_simp

text \<open>
  Claim C8. A file with an export table all of whose exported symbols yield nothing
  gives a value with an empty symbol sequence, and the Program Aggregator keeps that
  value in its result.
\<close>

theorem empty_FileTests_is_kept:
  assumes fs: "symbol file = Some fileSym" and ex: "exports fileSym = Some fileExports"
    and none: "\<forall>k symb. (k, Some symb) \<in> set fileExports \<longrightarrow> gatherSymbolDocTests symb = None"
    and d: "distinct (Object_keys (sourceFiles linked))"
    and mem: "(k, Some file) \<in> set (sourceFiles linked)"
  shows "gatherFileDocTests file = Some \<lparr>DocTestFile.name = moduleName file, symbols = []\<rparr>
     \<and> \<lparr>DocTestFile.name = moduleName file, symbols = []\<rparr> \<in> set (gatherProgramDocTests linked)"
proof -
  have "\<forall>x \<in> set (map gatherSymbolDocTests
            (filterDefined (map (getProp fileExports) (Object_keys fileExports)))). x = None"
    using none by (auto simp: set_filterDefined dest!: getProp_Some_mem [OF sym])
  then have "filterDefined (map gatherSymbolDocTests
            (filterDefined (map (getProp fileExports) (Object_keys fileExports)))) = []"
    by (rule filterDefined_all_None)
  with fs ex
  have g: "gatherFileDocTests file = Some \<lparr>DocTestFile.name = moduleName file, symbols = []\<rparr>"
    by (simp add: gatherFileDocTests_def Let_def)
  from mem have "file \<in> set (filterDefined (map snd (sourceFiles linked)))"
    by (force simp: set_filterDefined)
  then have "gatherFileDocTests file
      \<in> set (map gatherFileDocTests (filterDefined (map snd (sourceFiles linked))))"
    by simp
  with g have "\<lparr>DocTestFile.name = moduleName file, symbols = []\<rparr>
      \<in> set (gatherProgramDocTests linked)"
    by (simp add: gatherProgramDocTests_distinct [OF d] set_filterDefined)
  with g show ?thesis by simp
qed

text \<open>A program of one file that exports one symbol without documentation.\<close>

theorem empty_FileTests_is_kept_witness:
  "gatherFileDocTests
     \<lparr>moduleName = ''math'',
      symbol = Some (LinkedFormattedSymbol ''math'' None
                 (Some [(''add'', Some (LinkedFormattedSymbol ''add'' None None))]))\<rparr>
     = Some \<lparr>DocTestFile.name = ''math'', symbols = []\<rparr>
   \<and> \<lparr>DocTestFile.name = ''math'', symbols = []\<rparr>
       \<in> set (gatherProgramDocTests
                \<lparr>sourceFiles =
                   [(''math.ts'',
                     Some \<lparr>moduleName = ''math'',
                           symbol = Some (LinkedFormattedSymbol ''math'' None
                             (Some [(''add'',
                                     Some (LinkedFormattedSymbol ''add'' None None))]))\<rparr>)]\<rparr>)"
proof -
  let ?add = "LinkedFormattedSymbol ''add'' None None"
  let ?ex = "[(''add'', Some ?add)]"
  let ?fs = "LinkedFormattedSymbol ''math'' None (Some ?ex)"
  let ?file = "\<lparr>moduleName = ''math'', symbol = Some ?fs\<rparr>"
  let ?linked = "\<lparr>sourceFiles = [(''math.ts'', Some ?file)]\<rparr>"
  have 1: "symbol ?file = Some ?fs" by simp
  have 2: "exports ?fs = Some ?ex" by simp
  have 3: "\<forall>k symb. (k, Some symb) \<in> set ?ex \<longrightarrow> gatherSymbolDocTests symb = None"
    by (simp add: gatherSymbolDocTests_def)
  have 4: "distinct (Object_keys (sourceFiles ?linked))"
    by (simp add: Object_keys_def)
  have 5: "(''math.ts'', Some ?file) \<in> set (sourceFiles ?linked)" by simp
  from empty_FileTests_is_kept [OF 1 2 3 4 5] show ?thesis by simp
qed

text \<open>
  Claim C10. Entries whose value is \<open>undefined\<close>, in the source-file mapping or in the
  export table of a file, are skipped: both aggregators give the result they give on
  the dictionary without those entries. The aggregators are total functions without
  an error value: no path of theirs raises.
\<close>

theorem undefined_entries_are_skipped:
  "(distinct (Object_keys (sourceFiles linked)) \<longrightarrow>
      gatherProgramDocTests linked =
        gatherProgramDocTests (linked\<lparr>sourceFiles := dropUndefined (sourceFiles linked)\<rparr>))
   \<and> (distinct (Object_keys fileExports) \<longrightarrow>
      gatherFileDocTests
        \<lparr>moduleName = m, symbol = Some (LinkedFormattedSymbol n doc (Some fileExports))\<rparr> =
      gatherFileDocTests
        \<lparr>moduleName = m,
         symbol = Some (LinkedFormattedSymbol n doc (Some (dropUndefined fileExports)))\<rparr>)"
  by (simp add: gatherProgramDocTests_def gatherFileDocTests_def Let_def values_distinct
      distinct_dropUndefined filterDefined_dropUndefined)

text \<open>A mapping and an export table with one \<open>undefined\<close> entry each.\<close>

theorem undefined_entries_are_skipped_witness:
  "gatherProgramDocTests
     \<lparr>sourceFiles = [(''a.ts'', None),
                     (''b.ts'', Some \<lparr>moduleName = ''b'', symbol = None\<rparr>)]\<rparr>
     = gatherProgramDocTests
         \<lparr>sourceFiles = [(''b.ts'', Some \<lparr>moduleName = ''b'', symbol = None\<rparr>)]\<rparr>
   \<and> gatherFileDocTests
        \<lparr>moduleName = ''b'',
         symbol = Some (LinkedFormattedSymbol ''b'' None
                    (Some [(''x'', None),
                           (''add'', Some (LinkedFormattedSymbol ''add'' None None))]))\<rparr>
     = gatherFileDocTests
        \<lparr>moduleName = ''b'',
         symbol = Some (LinkedFormattedSymbol ''b'' None
                    (Some [(''add'', Some (LinkedFormattedSymbol ''add'' None None))]))\<rparr>"
  using undefined_entries_are_skipped
    [of "\<lparr>sourceFiles = [(''a.ts'', None),
                           (''b.ts'', Some \<lparr>moduleName = ''b'', symbol = None\<rparr>)]\<rparr>"
        "[(''x'', None), (''add'', Some (LinkedFormattedSymbol ''add'' None None))]"
        "''b''" "''b''" None]
  by (simp add: Object_keys_def dropUndefined_def)

section \<open>The Execution Reporter\<close>

lemma invocations_append: "invocations (xs @ ys) = invocations xs @ invocations ys"
  by (induction xs rule: invocations.induct) simp_all

lemma invocations_concat: "invocations (concat xss) = concat (map invocations xss)"
  by (induction xss) (simp_all add: invocations_append)

lemma invocations_launchTest: "invocations (launchTest t) = [t]"
  by (simp add: launchTest_def)

lemma invocations_launchSymbol: "invocations (launchSymbol s) = tests s"
proof (cases "tests s = []")
  case True
  then show ?thesis by (simp add: launchSymbol_def)
next
  case False
  have "concat (map (\<lambda>t. [t]) (tests s)) = tests s"
    by (induction "tests s") simp_all
  with False show ?thesis
    by (simp add: launchSymbol_def invocations_concat comp_def invocations_launchTest)
qed

lemma invocations_launchFile: "invocations (launchFile file) = concat (map tests (symbols file))"
  by (simp add: launchFile_def invocations_concat comp_def invocations_launchSymbol)

lemma invocations_reportDocTests:
  "invocations (events (reportDocTests docTests settled))
     = concat (map tests (concat (map symbols docTests)))"
proof -
  have "concat (map (\<lambda>file. concat (map tests (symbols file))) docTests)
          = concat (map tests (concat (map symbols docTests)))"
    by (induction docTests) simp_all
  then show ?thesis
    by (simp add: reportDocTests_def invocations_concat comp_def invocations_launchFile)
qed

lemma find_isRejected:
  "find isRejected settled = Some r \<Longrightarrow> \<exists>err. r = Rejected err \<and> Rejected err \<in> set settled"
  by (induction settled) (auto split: if_splits elim: isRejected.elims)

lemma find_isRejected_None:
  "find isRejected settled = None \<longleftrightarrow> (\<forall>err. Rejected err \<notin> set settled)"
  by (induction settled) (auto elim: isRejected.elims)

lemma promiseAll_rejected:
  assumes "Rejected err \<in> set settled"
  shows "\<exists>err'. Rejected err' \<in> set settled \<and> promiseAll n settled = Some (Rejected err')"
proof (cases "find isRejected settled")
  case None
  with assms show ?thesis by (simp add: find_isRejected_None)
next
  case (Some r)
  from find_isRejected [OF Some] Some show ?thesis by (auto simp: promiseAll_def)
qed

lemma promiseAll_fulfilled:
  "promiseAll n settled = Some Fulfilled \<longleftrightarrow>
     (\<forall>err. Rejected err \<notin> set settled) \<and> length settled = n"
proof (cases "find isRejected settled")
  case None
  then show ?thesis by (auto simp: promiseAll_def find_isRejected_None [symmetric])
next
  case (Some r)
  from find_isRejected [OF Some] Some show ?thesis by (auto simp: promiseAll_def)
qed

lemma message_in_errorToString: "suffix (message err) (errorToString err)"
  by (simp add: errorToString_def suffix_def)

lemma symbolResult_printed:
  assumes i: "i < length docTests" and j: "j < length (symbols (docTests ! i))"
    and r: "symbolResult (symbols (docTests ! i) ! j) (settled i j) = Some l"
  shows "l \<in> set (results (reportDocTests docTests settled))"
proof -
  from i have "(i, docTests ! i) \<in> set (enumerate 0 docTests)"
    by (simp add: in_set_enumerate_eq)
  moreover from j have "(j, symbols (docTests ! i) ! j) \<in> set (enumerate 0 (symbols (docTests ! i)))"
    by (simp add: in_set_enumerate_eq)
  with r have "l \<in> set (fileResults (docTests ! i) (settled i))"
    by (force simp: fileResults_def)
  ultimately show ?thesis
    by (force simp: reportDocTests_def)
qed

lemma completion_never_rejected: "completion (reportDocTests docTests settled) \<noteq> Some (Inl err)"
  by (simp add: reportDocTests_def)

text \<open>
  Claim C6. For a symbol with at least one test unit, the runner is invoked once per
  test unit, and over the whole report once per test unit of every symbol of every
  file, whatever the outcomes are: no outcome cancels a sibling. If an invocation of
  the symbol is rejected, the symbol's result is a failure line with the symbol's name
  and the text of a rejected invocation's error (the first to settle), which ends with
  the error's message; it is a success line exactly when all invocations are fulfilled.
  The line is among the printed results, and the report itself is never rejected: the
  error goes no further than the symbol.
\<close>

theorem failures_stay_with_their_symbol:
  assumes i: "i < length docTests" and j: "j < length (symbols (docTests ! i))"
    and s: "s = symbols (docTests ! i) ! j" and ne: "tests s \<noteq> []"
  shows "invocations (launchSymbol s) = tests s
    \<and> invocations (events (reportDocTests docTests settled))
        = concat (map tests (concat (map symbols docTests)))
    \<and> ((\<exists>err. Rejected err \<in> set (settled i j)) \<longrightarrow>
         (\<exists>err. Rejected err \<in> set (settled i j)
            \<and> symbolResult s (settled i j)
                = Some (SymbolFailed (DocTestSymbol.name s) (errorToString err))
            \<and> suffix (message err) (errorToString err)))
    \<and> (symbolResult s (settled i j) = Some (SymbolPassed (DocTestSymbol.name s)) \<longleftrightarrow>
         (\<forall>err. Rejected err \<notin> set (settled i j)) \<and> length (settled i j) = length (tests s))
    \<and> (\<forall>l. symbolResult s (settled i j) = Some l \<longrightarrow>
          l \<in> set (results (reportDocTests docTests settled)))
    \<and> (\<forall>err. completion (reportDocTests docTests settled) \<noteq> Some (Inl err))"
proof -
  have 1: "invocations (launchSymbol s) = tests s"
    by (rule invocations_launchSymbol)
  have 2: "invocations (events (reportDocTests docTests settled))
        = concat (map tests (concat (map symbols docTests)))"
    by (rule invocations_reportDocTests)
  have 3: "(\<exists>err. Rejected err \<in> set (settled i j)) \<longrightarrow>
         (\<exists>err. Rejected err \<in> set (settled i j)
            \<and> symbolResult s (settled i j)
                = Some (SymbolFailed (DocTestSymbol.name s) (errorToString err))
            \<and> suffix (message err) (errorToString err))"
  proof
    assume "\<exists>err. Rejected err \<in> set (settled i j)"
    then obtain err where "Rejected err \<in> set (settled i j)" ..
    from promiseAll_rejected [OF this, of "length (tests s)"]
    obtain err' where e: "Rejected err' \<in> set (settled i j)"
      and p: "promiseAll (length (tests s)) (settled i j) = Some (Rejected err')"
      by blast
    from ne p have "symbolResult s (settled i j)
        = Some (SymbolFailed (DocTestSymbol.name s) (errorToString err'))"
      by (simp add: symbolResult_def)
    with e message_in_errorToString [of err']
    show "\<exists>err. Rejected err \<in> set (settled i j)
            \<and> symbolResult s (settled i j)
                = Some (SymbolFailed (DocTestSymbol.name s) (errorToString err))
            \<and> suffix (message err) (errorToString err)"
      by blast
  qed
  have 4: "symbolResult s (settled i j) = Some (SymbolPassed (DocTestSymbol.name s)) \<longleftrightarrow>
         (\<forall>err. Rejected err \<notin> set (settled i j)) \<and> length (settled i j) = length (tests s)"
    using ne promiseAll_fulfilled [of "length (tests s)" "settled i j"]
    by (auto simp: symbolResult_def split: option.splits outcome.splits)
  have 5: "\<forall>l. symbolResult s (settled i j) = Some l \<longrightarrow>
          l \<in> set (results (reportDocTests docTests settled))"
    using symbolResult_printed [OF i j] s by blast
  have 6: "\<forall>err. completion (reportDocTests docTests settled) \<noteq> Some (Inl err)"
    by (simp add: completion_never_rejected)
  from 1 2 3 4 5 6 show ?thesis by blast
qed

text \<open>
  A symbol with two test units, both invoked: one invocation is rejected with the error
  \<open>boom\<close>, the other is fulfilled after that. The failure line carries the message.
\<close>

theorem failures_stay_with_their_symbol_witness:
  "invocations (events (reportDocTests
      [\<lparr>DocTestFile.name = ''math'',
        symbols = [\<lparr>DocTestSymbol.name = ''add'',
                    tests = [\<lparr>codeArray = [''add(1, 2)''], importsArray = []\<rparr>,
                             \<lparr>codeArray = [''fail()''], importsArray = []\<rparr>]\<rparr>]\<rparr>]
      (\<lambda>i j. [Rejected \<lparr>errName = ''Error'', message = ''boom''\<rparr>, Fulfilled])))
     = [\<lparr>codeArray = [''add(1, 2)''], importsArray = []\<rparr>,
        \<lparr>codeArray = [''fail()''], importsArray = []\<rparr>]
   \<and> symbolResult
        \<lparr>DocTestSymbol.name = ''add'',
         tests = [\<lparr>codeArray = [''add(1, 2)''], importsArray = []\<rparr>,
                  \<lparr>codeArray = [''fail()''], importsArray = []\<rparr>]\<rparr>
        [Rejected \<lparr>errName = ''Error'', message = ''boom''\<rparr>, Fulfilled]
       = Some (SymbolFailed ''add'' ''Error: boom'')
   \<and> SymbolFailed ''add'' ''Error: boom''
       \<in> set (results (reportDocTests
      [\<lparr>DocTestFile.name = ''math'',
        symbols = [\<lparr>DocTestSymbol.name = ''add'',
                    tests = [\<lparr>codeArray = [''add(1, 2)''], importsArray = []\<rparr>,
                             \<lparr>codeArray = [''fail()''], importsArray = []\<rparr>]\<rparr>]\<rparr>]
      (\<lambda>i j. [Rejected \<lparr>errName = ''Error'', message = ''boom''\<rparr>, Fulfilled])))"
proof -
  let ?T1 = "\<lparr>codeArray = [''add(1, 2)''], importsArray = []\<rparr>"
  let ?T2 = "\<lparr>codeArray = [''fail()''], importsArray = []\<rparr>"
  let ?s = "\<lparr>DocTestSymbol.name = ''add'', tests = [?T1, ?T2]\<rparr>"
  let ?D = "[\<lparr>DocTestFile.name = ''math'', symbols = [?s]\<rparr>]"
  let ?S = "\<lambda>(i::nat) (j::nat). [Rejected \<lparr>errName = ''Error'', message = ''boom''\<rparr>, Fulfilled]"
  have i: "0 < length ?D" by simp
  have j: "0 < length (symbols (?D ! 0))" by simp
  have s: "?s = symbols (?D ! 0) ! 0" by simp
  have ne: "tests ?s \<noteq> []" by simp
  have e: "errorToString \<lparr>errName = ''Error'', message = ''boom''\<rparr> = ''Error: boom''"
    by (simp add: errorToString_def)
  from failures_stay_with_their_symbol [OF i j s ne, of ?S] e show ?thesis
    by auto
qed

section \<open>The entry operation\<close>

text \<open>
  Claim C9. When the package locator returns nothing the run is rejected with an error
  and has done nothing else: no event (no line, no invocation of the runner) and no
  result line. When the program builder succeeded the error is the one of line 142.
  The run does not depend on the linked data or on the runner: nothing is gathered.
\<close>

theorem no_package_json_aborts:
  assumes "findPkgJson world pth = None"
  shows "events (doctestProgram world pth) = []
    \<and> results (doctestProgram world pth) = []
    \<and> (\<exists>err. completion (doctestProgram world pth) = Some (Inl err))
    \<and> (\<forall>prog. createProgramFromTsConfig world pth = Inr prog \<longrightarrow>
          completion (doctestProgram world pth) =
            Some (Inl (newError (''Could not find package.json via search path ''
                                  @ [CHR 0x22] @ pth @ [CHR 0x22]))))
    \<and> (\<forall>f r. doctestProgram (world\<lparr>linkFormatterData := f, runTestSettled := r\<rparr>) pth
               = doctestProgram world pth)"
  using assms by (auto simp: doctestProgram_def split: sum.splits)


text \<open>A world whose package locator finds nothing.\<close>

theorem no_package_json_aborts_witness:
  "events (doctestProgram
      \<lparr>createProgramFromTsConfig = (\<lambda>p. Inr ()), findPkgJson = (\<lambda>p. None),
       linkFormatterData = (\<lambda>p i. \<lparr>sourceFiles = []\<rparr>), runTestSettled = (\<lambda>i j. [])\<rparr>
      ''proj'') = []
   \<and> completion (doctestProgram
      \<lparr>createProgramFromTsConfig = (\<lambda>p. Inr ()), findPkgJson = (\<lambda>p. None),
       linkFormatterData = (\<lambda>p i. \<lparr>sourceFiles = []\<rparr>), runTestSettled = (\<lambda>i j. [])\<rparr>
      ''proj'')
     = Some (Inl (newError (''Could not find package.json via search path ''
                             @ [CHR 0x22] @ ''proj'' @ [CHR 0x22])))"
proof -
  let ?W = "\<lparr>createProgramFromTsConfig = (\<lambda>p::string. Inr ()), findPkgJson = (\<lambda>p. None),
       linkFormatterData = (\<lambda>p i. \<lparr>sourceFiles = []\<rparr>), runTestSettled = (\<lambda>i j. [])\<rparr>"
  have h: "findPkgJson ?W ''proj'' = None" by simp
  from no_package_json_aborts [OF h] show ?thesis by simp
qed


end
